theory Spec2Isabelle
  imports Main "HOL-Library.Sublist" "HOL-Library.Word"
begin

section \<open>Data model\<close>

text \<open>
  The extension consists of three commands.  Two of them are list views over project
  folders with a bounded list of recently opened folders: \<^verbatim>\<open>src/open-in-cursor.tsx\<close>
  scans sub-directories of \<^verbatim>\<open>~/Documents\<close> (suffix \<open>_docs\<close> below) and
  \<^verbatim>\<open>unnamed/part_001\<close> scans sub-directories of \<^verbatim>\<open>~/Work\<close> (suffix
  \<open>_work\<close>).  The third, \<^verbatim>\<open>unnamed/part_000\<close>, opens the Finder selection.

  \<^verbatim>\<open>interface Folder { name: string; path: string; }\<close>
\<close>

record Folder =
  name :: string
  path :: string

text \<open>
  \<^verbatim>\<open>interface AppState { folders: Folder[]; recentFolders: Folder[]; isLoading: boolean; ... }\<close>
  (the remaining members are the store's operations, modelled as functions below).
  The type of \<open>recentFolders\<close> is a parameter: it is \<open>Folder list\<close> wherever the
  code handles it at its declared type, and a raw JSON value where \<^verbatim>\<open>loadFolders\<close>
  stores the result of \<^verbatim>\<open>JSON.parse\<close>, whose static type \<^verbatim>\<open>any\<close> is not checked
  against \<^verbatim>\<open>Folder[]\<close>.
\<close>

record 'r AppState =
  folders :: "Folder list"
  recentFolders :: 'r
  isLoading :: bool

type_synonym Store = "Folder list AppState"

text \<open>
  Everything a command does besides updating the store is recorded, in program order, as
  a list of effects: toasts, console output, requests to \<^verbatim>\<open>LocalStorage\<close> and
  launches of the editor.  \<^verbatim>\<open>LocalStorage.setItem\<close> returns a promise that the code
  never awaits, so \<open>SetItem\<close> records that the write was requested with this key and
  value, not that it has completed.
\<close>

datatype ToastStyle = Success | Failure

datatype effect =
    ShowToast ToastStyle string string
  | ConsoleWarn string
  | ConsoleError string string
  | SetItem string string
  | OpenWith string string
  | Exec string

section \<open>The JavaScript and Node functions the code calls\<close>

text \<open>\<^verbatim>\<open>Array.prototype.slice(0, n)\<close> is \<open>take n\<close>; \<^verbatim>\<open>filter\<close>, \<^verbatim>\<open>map\<close>,
  \<^verbatim>\<open>flatMap\<close> and \<^verbatim>\<open>find\<close> are \<open>filter\<close>, \<open>map\<close>, \<open>concat \<circ> map\<close> and
  \<open>find\<close>.\<close>

definition dquote :: char where
  "dquote = CHR 0x22"

definition backslash :: char where
  "backslash = CHR 0x5C"

text \<open>\<^verbatim>\<open>String.prototype.endsWith\<close>.\<close>

definition endsWith :: "string \<Rightarrow> string \<Rightarrow> bool" where
  "endsWith s suf = suffix suf s"

text \<open>\<^verbatim>\<open>Array.prototype.join\<close> on strings.\<close>

fun join_strings :: "string \<Rightarrow> string list \<Rightarrow> string" where
  "join_strings sep [] = []"
| "join_strings sep [s] = s"
| "join_strings sep (s # t # ss) = s @ sep @ join_strings sep (t # ss)"

text \<open>
  \<^verbatim>\<open>JSON.stringify\<close> on a value of type \<^verbatim>\<open>Folder[]\<close>: an array of objects with the
  two string members \<^verbatim>\<open>name\<close> and \<^verbatim>\<open>path\<close>, in this order, without white space.
  In a string the quotation mark, the backslash and the control characters below
  \<^verbatim>\<open>0x20\<close> are escaped.
\<close>

definition hex_digit :: "nat \<Rightarrow> char" where
  "hex_digit d = ''0123456789abcdef'' ! (d mod 16)"

definition json_escape :: "char \<Rightarrow> string" where
  "json_escape c =
     (if c = dquote then [backslash, dquote]
      else if c = backslash then [backslash, backslash]
      else if c = CHR 0x08 then [backslash, CHR ''b'']
      else if c = CHR 0x09 then [backslash, CHR ''t'']
      else if c = CHR 0x0A then [backslash, CHR ''n'']
      else if c = CHR 0x0C then [backslash, CHR ''f'']
      else if c = CHR 0x0D then [backslash, CHR ''r'']
      else if (of_char c :: nat) < 32
        then [backslash, CHR ''u'', CHR ''0'', CHR ''0'',
              hex_digit (of_char c div 16), hex_digit (of_char c)]
      else [c])"

definition json_string :: "string \<Rightarrow> string" where
  "json_string s = dquote # concat (map json_escape s) @ [dquote]"

definition json_folder :: "Folder \<Rightarrow> string" where
  "json_folder f =
     ''{'' @ json_string ''name'' @ '':'' @ json_string (name f) @ '','' @
     json_string ''path'' @ '':'' @ json_string (path f) @ ''}''"

definition JSON_stringify :: "Folder list \<Rightarrow> string" where
  "JSON_stringify fs = ''['' @ join_strings '','' (map json_folder fs) @ '']''"

section \<open>The recent-folders store\<close>

text \<open>The constants of \<^verbatim>\<open>src/open-in-cursor.tsx\<close> and of \<^verbatim>\<open>unnamed/part_001\<close>.\<close>

definition RECENT_FOLDERS_KEY_docs :: string where
  "RECENT_FOLDERS_KEY_docs = ''recentFolders''"

definition MAX_RECENT_FOLDERS_docs :: nat where
  "MAX_RECENT_FOLDERS_docs = 10"

definition RECENT_FOLDERS_KEY_work :: string where
  "RECENT_FOLDERS_KEY_work = ''recentFolders''"

definition MAX_RECENT_FOLDERS_work :: nat where
  "MAX_RECENT_FOLDERS_work = 10"

text \<open>The store as \<^verbatim>\<open>create<AppState>\<close> makes it.\<close>

definition initialStore :: Store where
  "initialStore = \<lparr>folders = [], recentFolders = [], isLoading = True\<rparr>"

text \<open>
  \<^verbatim>\<open>addRecentFolder\<close> of \<^verbatim>\<open>src/open-in-cursor.tsx\<close>: the new list is the folder
  followed by the old entries with another path, cut to the first
  \<^verbatim>\<open>MAX_RECENT_FOLDERS\<close>; a write of its JSON text is requested and the store updated.
\<close>

definition addRecentFolder_docs :: "Folder \<Rightarrow> Store \<Rightarrow> Store \<times> effect list" where
  "addRecentFolder_docs folder state =
     (let updatedRecentFolders =
            take MAX_RECENT_FOLDERS_docs
              (folder # filter (\<lambda>f. path f \<noteq> path folder) (recentFolders state))
      in (state\<lparr>recentFolders := updatedRecentFolders\<rparr>,
          [SetItem RECENT_FOLDERS_KEY_docs (JSON_stringify updatedRecentFolders)]))"

text \<open>\<^verbatim>\<open>addRecentFolder\<close> of \<^verbatim>\<open>unnamed/part_001\<close>.\<close>

definition addRecentFolder_work :: "Folder \<Rightarrow> Store \<Rightarrow> Store \<times> effect list" where
  "addRecentFolder_work folder state =
     (let updatedRecentFolders =
            take MAX_RECENT_FOLDERS_work
              (folder # filter (\<lambda>f. path f \<noteq> path folder) (recentFolders state))
      in (state\<lparr>recentFolders := updatedRecentFolders\<rparr>,
          [SetItem RECENT_FOLDERS_KEY_work (JSON_stringify updatedRecentFolders)]))"

text \<open>
  A run of calls of \<^verbatim>\<open>addRecentFolder\<close>, one per folder of the list, in order: the
  store after the last call and all effects.
\<close>

fun addRecentFolders_docs :: "Folder list \<Rightarrow> Store \<Rightarrow> Store \<times> effect list" where
  "addRecentFolders_docs [] state = (state, [])"
| "addRecentFolders_docs (f # fs) state =
     (case addRecentFolder_docs f state of
        (state', es) \<Rightarrow>
          (case addRecentFolders_docs fs state' of (state'', es') \<Rightarrow> (state'', es @ es')))"

fun addRecentFolders_work :: "Folder list \<Rightarrow> Store \<Rightarrow> Store \<times> effect list" where
  "addRecentFolders_work [] state = (state, [])"
| "addRecentFolders_work (f # fs) state =
     (case addRecentFolder_work f state of
        (state', es) \<Rightarrow>
          (case addRecentFolders_work fs state' of (state'', es') \<Rightarrow> (state'', es @ es')))"

section \<open>Paths and the file system\<close>

text \<open>
  \<^verbatim>\<open>path.join\<close> of Node (POSIX) for two arguments: the non-empty arguments are joined
  with a slash and the result is normalised (empty and \<^verbatim>\<open>.\<close> segments dropped,
  \<^verbatim>\<open>..\<close> resolved against the segment before it, a trailing slash kept).
\<close>

fun split_slash :: "string \<Rightarrow> string list" where
  "split_slash [] = [[]]"
| "split_slash (c # cs) =
     (if c = CHR ''/'' then [] # split_slash cs
      else (case split_slash cs of
              [] \<Rightarrow> [[c]]
            | seg # segs \<Rightarrow> (c # seg) # segs))"

fun normalizeSegments :: "bool \<Rightarrow> string list \<Rightarrow> string list \<Rightarrow> string list" where
  "normalizeSegments allowAboveRoot res [] = rev res"
| "normalizeSegments allowAboveRoot res (seg # segs) =
     (if seg = [] \<or> seg = ''.'' then normalizeSegments allowAboveRoot res segs
      else if seg = ''..'' then
        (case res of
           [] \<Rightarrow>
             normalizeSegments allowAboveRoot (if allowAboveRoot then [''..''] else []) segs
         | lastSeg # below \<Rightarrow>
             if lastSeg = ''..''
             then normalizeSegments allowAboveRoot
                    (if allowAboveRoot then ''..'' # res else res) segs
             else normalizeSegments allowAboveRoot below segs)
      else normalizeSegments allowAboveRoot (seg # res) segs)"

definition path_normalize :: "string \<Rightarrow> string" where
  "path_normalize p =
     (if p = [] then ''.''
      else
        (let isAbsolute = (hd p = CHR ''/'');
             trailingSeparator = (last p = CHR ''/'');
             res = join_strings ''/'' (normalizeSegments (\<not> isAbsolute) [] (split_slash p))
         in if res = [] then (if isAbsolute then ''/'' else if trailingSeparator then ''./'' else ''.'')
            else (if isAbsolute then ''/'' else []) @ res @
                 (if trailingSeparator then ''/'' else [])))"

definition path_join :: "string \<Rightarrow> string \<Rightarrow> string" where
  "path_join a b =
     (let joined = join_strings ''/'' (filter (\<lambda>arg. arg \<noteq> []) [a, b])
      in if joined = [] then ''.'' else path_normalize joined)"

text \<open>
  The file system as \<^verbatim>\<open>fs.existsSync\<close> and
  \<^verbatim>\<open>fs.readdirSync(p, { withFileTypes: true })\<close> see it: a path is missing, or
  exists but cannot be listed (the error that \<^verbatim>\<open>readdirSync\<close> throws), or is a
  directory with its entries in enumeration order.  An entry has a name and a kind;
  \<^verbatim>\<open>isDirectory()\<close> and \<^verbatim>\<open>isFile()\<close> hold of a directory and of a regular file
  only, so a symbolic link is neither.
\<close>

datatype DirentKind = RegularFile | Directory | SymbolicLink | OtherKind

datatype Dirent = Dirent (entry_name: string) (entry_kind: DirentKind)

datatype FsNode = Missing | Unlistable string | Listing "Dirent list"

type_synonym FileSystem = "string \<Rightarrow> FsNode"

definition isDirectory :: "Dirent \<Rightarrow> bool" where
  "isDirectory entry = (entry_kind entry = Directory)"

definition isFile :: "Dirent \<Rightarrow> bool" where
  "isFile entry = (entry_kind entry = RegularFile)"

definition existsSync :: "FileSystem \<Rightarrow> string \<Rightarrow> bool" where
  "existsSync fs p = (fs p \<noteq> Missing)"

definition readdirSync :: "FileSystem \<Rightarrow> string \<Rightarrow> string + Dirent list" where
  "readdirSync fs p =
     (case fs p of
        Missing \<Rightarrow> Inl ''ENOENT''
      | Unlistable err \<Rightarrow> Inl err
      | Listing entries \<Rightarrow> Inr entries)"

section \<open>Scanning the search paths\<close>

text \<open>\<^verbatim>\<open>process.env.HOME || ""\<close> and the search paths of the two list commands.\<close>

definition HOME_DIR :: "string option \<Rightarrow> string" where
  "HOME_DIR env_HOME = (case env_HOME of None \<Rightarrow> [] | Some h \<Rightarrow> h)"

definition DOCUMENTS_DIR :: "string option \<Rightarrow> string" where
  "DOCUMENTS_DIR env_HOME = path_join (HOME_DIR env_HOME) ''Documents''"

definition SEARCH_PATHS_docs :: "string option \<Rightarrow> string list" where
  "SEARCH_PATHS_docs env_HOME =
     [path_join (DOCUMENTS_DIR env_HOME) ''Projects'',
      path_join (DOCUMENTS_DIR env_HOME) ''raycast-extensions'',
      path_join (DOCUMENTS_DIR env_HOME) ''test-code'']"

definition WORK_DIR :: "string option \<Rightarrow> string" where
  "WORK_DIR env_HOME = path_join (HOME_DIR env_HOME) ''Work''"

definition SEARCH_PATHS_work :: "string option \<Rightarrow> string list" where
  "SEARCH_PATHS_work env_HOME =
     [path_join (WORK_DIR env_HOME) ''bmads'',
      path_join (WORK_DIR env_HOME) ''pet-projects'',
      path_join (WORK_DIR env_HOME) ''projects'',
      path_join (WORK_DIR env_HOME) ''raycast-extensions'']"

text \<open>
  \<^verbatim>\<open>getFoldersFromPath\<close> (the same text in both list commands): the folders found
  and what was written to the console.
\<close>

definition getFoldersFromPath :: "FileSystem \<Rightarrow> string \<Rightarrow> Folder list \<times> effect list" where
  "getFoldersFromPath fs dirPath =
     (if \<not> existsSync fs dirPath
      then ([], [ConsoleWarn (''Path does not exist: '' @ dirPath)])
      else
        (case readdirSync fs dirPath of
           Inl err \<Rightarrow> ([], [ConsoleError (''Error reading directory '' @ dirPath @ '':'') err])
         | Inr entries \<Rightarrow>
             (map (\<lambda>entry. \<lparr>name = entry_name entry, path = path_join dirPath (entry_name entry)\<rparr>)
                (filter isDirectory entries), [])))"

text \<open>\<^verbatim>\<open>SEARCH_PATHS.flatMap(getFoldersFromPath)\<close>, with the console output of all calls.\<close>

definition scanAll :: "FileSystem \<Rightarrow> string list \<Rightarrow> Folder list \<times> effect list" where
  "scanAll fs roots =
     (let scans = map (getFoldersFromPath fs) roots
      in (concat (map fst scans), concat (map snd scans)))"

section \<open>Loading the persisted list\<close>

text \<open>
  The values \<^verbatim>\<open>JSON.parse\<close> can return.  A number is an IEEE 754 double, kept as its
  64 bits; the program never inspects one.
\<close>

type_synonym JSNumber = "64 word"

datatype JSValue =
    JNull
  | JBool bool
  | JNumber JSNumber
  | JString string
  | JArray "JSValue list"
  | JObject "(string \<times> JSValue) list"

text \<open>The run-time value of a \<^verbatim>\<open>Folder\<close> and of a \<^verbatim>\<open>Folder[]\<close>.\<close>

definition folderValue :: "Folder \<Rightarrow> JSValue" where
  "folderValue f = JObject [(''name'', JString (name f)), (''path'', JString (path f))]"

definition foldersValue :: "Folder list \<Rightarrow> JSValue" where
  "foldersValue fs = JArray (map folderValue fs)"

definition rawStore :: "Store \<Rightarrow> JSValue AppState" where
  "rawStore s =
     \<lparr>folders = folders s, recentFolders = foldersValue (recentFolders s),
      isLoading = isLoading s\<rparr>"

text \<open>
  \<^verbatim>\<open>LocalStorage\<close> of the Raycast API maps keys to strings; \<^verbatim>\<open>getItem\<close> gives
  \<^verbatim>\<open>undefined\<close> for a key without value.  \<^verbatim>\<open>JSON.parse\<close> is a parameter of the
  model: \<open>Inl msg\<close> when it throws a \<^verbatim>\<open>SyntaxError\<close> with message \<open>msg\<close>, \<open>Inr v\<close>
  when it returns \<open>v\<close>.
\<close>

type_synonym LocalStorage = "string \<rightharpoonup> string"

type_synonym JSONParse = "string \<Rightarrow> string + JSValue"

text \<open>
  The \<^verbatim>\<open>try\<close> block of \<^verbatim>\<open>loadFolders\<close> (the same text in both list commands, up
  to the search paths): the store, the console output and the message of the error
  thrown, if any.  \<^verbatim>\<open>if (storedRecentFolders)\<close> is false for \<^verbatim>\<open>undefined\<close> and
  for the empty string.
\<close>

definition loadFolders_try ::
  "JSONParse \<Rightarrow> FileSystem \<Rightarrow> string list \<Rightarrow> string \<Rightarrow> LocalStorage \<Rightarrow>
   JSValue AppState \<Rightarrow> JSValue AppState \<times> effect list \<times> string option" where
  "loadFolders_try parse fs roots key storage state =
     (case scanAll fs roots of
        (allFolders, logs) \<Rightarrow>
          (let state1 = state\<lparr>folders := allFolders\<rparr>
           in case storage key of
                None \<Rightarrow> (state1, logs, None)
              | Some storedRecentFolders \<Rightarrow>
                  if storedRecentFolders = [] then (state1, logs, None)
                  else
                    (case parse storedRecentFolders of
                       Inl msg \<Rightarrow> (state1, logs, Some msg)
                     | Inr v \<Rightarrow> (state1\<lparr>recentFolders := v\<rparr>, logs, None))))"

text \<open>\<^verbatim>\<open>loadFolders\<close>: the \<^verbatim>\<open>try\<close> block, then \<^verbatim>\<open>catch\<close> (a failure toast with
  the error's message) and \<^verbatim>\<open>finally\<close>.\<close>

definition loadFolders ::
  "JSONParse \<Rightarrow> FileSystem \<Rightarrow> string list \<Rightarrow> string \<Rightarrow> LocalStorage \<Rightarrow>
   JSValue AppState \<Rightarrow> JSValue AppState \<times> effect list" where
  "loadFolders parse fs roots key storage state =
     (case loadFolders_try parse fs roots key storage state of
        (state', logs, thrown) \<Rightarrow>
          (state'\<lparr>isLoading := False\<rparr>,
           logs @ (case thrown of
                     None \<Rightarrow> []
                   | Some msg \<Rightarrow> [ShowToast Failure ''Error reading folders'' msg])))"

definition loadFolders_docs ::
  "JSONParse \<Rightarrow> FileSystem \<Rightarrow> string option \<Rightarrow> LocalStorage \<Rightarrow>
   JSValue AppState \<Rightarrow> JSValue AppState \<times> effect list" where
  "loadFolders_docs parse fs env_HOME =
     loadFolders parse fs (SEARCH_PATHS_docs env_HOME) RECENT_FOLDERS_KEY_docs"

definition loadFolders_work ::
  "JSONParse \<Rightarrow> FileSystem \<Rightarrow> string option \<Rightarrow> LocalStorage \<Rightarrow>
   JSValue AppState \<Rightarrow> JSValue AppState \<times> effect list" where
  "loadFolders_work parse fs env_HOME =
     loadFolders parse fs (SEARCH_PATHS_work env_HOME) RECENT_FOLDERS_KEY_work"

section \<open>Opening a folder\<close>

text \<open>
  The editor is launched through the Raycast function \<^verbatim>\<open>open(target, application)\<close>
  in \<^verbatim>\<open>src/open-in-cursor.tsx\<close> and \<^verbatim>\<open>unnamed/part_000\<close>, and through
  \<^verbatim>\<open>execAsync(command)\<close> in \<^verbatim>\<open>unnamed/part_001\<close>.  Both are parameters of the
  model: \<open>None\<close> when the awaited promise is fulfilled, \<open>Some e\<close> when it is rejected,
  \<open>e\<close> being \<^verbatim>\<open>String(error)\<close>.  \<^verbatim>\<open>showToast\<close> is taken not to fail.
\<close>

type_synonym Launcher = "string \<Rightarrow> string \<Rightarrow> string option"

type_synonym Shell = "string \<Rightarrow> string option"

text \<open>\<^verbatim>\<open>openInCursor\<close> of \<^verbatim>\<open>src/open-in-cursor.tsx\<close>.\<close>

definition openInCursor_docs :: "Launcher \<Rightarrow> Folder \<Rightarrow> Store \<Rightarrow> Store \<times> effect list" where
  "openInCursor_docs launch folder state =
     (case launch (path folder) ''Cursor'' of
        None \<Rightarrow>
          (case addRecentFolder_docs folder state of
             (state', writes) \<Rightarrow>
               (state',
                [OpenWith (path folder) ''Cursor'',
                 ShowToast Success ''Opened in Cursor'' (path folder)] @ writes))
      | Some error \<Rightarrow>
          (state,
           [OpenWith (path folder) ''Cursor'',
            ShowToast Failure ''Failed to open in Cursor'' error]))"

text \<open>\<^verbatim>\<open>findWorkspaceFileInFolder\<close> of \<^verbatim>\<open>unnamed/part_001\<close>, with its console output.\<close>

definition findWorkspaceFileInFolder ::
  "FileSystem \<Rightarrow> string \<Rightarrow> string option \<times> effect list" where
  "findWorkspaceFileInFolder fs folderPath =
     (if \<not> existsSync fs folderPath then (None, [])
      else
        (case readdirSync fs folderPath of
           Inl error \<Rightarrow>
             (None,
              [ConsoleError (''Error checking for workspace file in '' @ folderPath @ '':'') error])
         | Inr entries \<Rightarrow>
             (case find (\<lambda>entry. isFile entry \<and> endsWith (entry_name entry) ''.code-workspace'')
                     entries of
                None \<Rightarrow> (None, [])
              | Some workspaceFile \<Rightarrow>
                  (Some (path_join folderPath (entry_name workspaceFile)), []))))"

text \<open>The template \<^verbatim>\<open>`cursor "${target}"`\<close>.\<close>

definition cursor_command :: "string \<Rightarrow> string" where
  "cursor_command target = ''cursor '' @ [dquote] @ target @ [dquote]"

text \<open>
  \<^verbatim>\<open>openInCursor\<close> of \<^verbatim>\<open>unnamed/part_001\<close>.  \<^verbatim>\<open>if (workspaceFile)\<close> is false for
  \<^verbatim>\<open>null\<close> and for the empty string.
\<close>

definition openInCursor_work ::
  "Shell \<Rightarrow> FileSystem \<Rightarrow> Folder \<Rightarrow> Store \<Rightarrow> Store \<times> effect list" where
  "openInCursor_work exec fs folder state =
     (case findWorkspaceFileInFolder fs (path folder) of
        (found, logs) \<Rightarrow>
          (let (target, title) =
                 (case found of
                    None \<Rightarrow> (path folder, ''Opened in Cursor'')
                  | Some workspaceFile \<Rightarrow>
                      if workspaceFile \<noteq> []
                      then (workspaceFile, ''Opened workspace in Cursor'')
                      else (path folder, ''Opened in Cursor''))
           in case exec (cursor_command target) of
                None \<Rightarrow>
                  (case addRecentFolder_work folder state of
                     (state', writes) \<Rightarrow>
                       (state',
                        logs @ [Exec (cursor_command target), ShowToast Success title target]
                          @ writes))
              | Some error \<Rightarrow>
                  (state,
                   logs @ [Exec (cursor_command target),
                           ShowToast Failure ''Failed to open in Cursor'' error])))"

section \<open>The two sections of the list\<close>

text \<open>
  \<^verbatim>\<open>otherFolders\<close> (the same text in both list commands): \<^verbatim>\<open>recentSet\<close> is the set
  of the recent folders' paths, and the folders whose path is not in it are kept.
\<close>

definition otherFolders :: "Folder list \<Rightarrow> Folder list \<Rightarrow> Folder list" where
  "otherFolders recent all =
     (let recentSet = set (map path recent)
      in filter (\<lambda>f. path f \<notin> recentSet) all)"

section \<open>Opening the Finder selection\<close>

text \<open>\<^verbatim>\<open>String(n)\<close> for a length \<open>n\<close>: its decimal digits.\<close>

definition digit_char :: "nat \<Rightarrow> char" where
  "digit_char d = ''0123456789'' ! (d mod 10)"

fun String_nat :: "nat \<Rightarrow> string" where
  "String_nat n = (if n < 10 then [digit_char n] else String_nat (n div 10) @ [digit_char n])"

declare String_nat.simps [simp del]

text \<open>
  The loop of \<^verbatim>\<open>Command\<close> in \<^verbatim>\<open>unnamed/part_000\<close>: every item is opened in turn,
  and a rejected launch is written to the console.
\<close>

fun openItems :: "Launcher \<Rightarrow> string list \<Rightarrow> effect list" where
  "openItems launch [] = []"
| "openItems launch (itemPath # items) =
     (OpenWith itemPath ''Cursor'' #
      (case launch itemPath ''Cursor'' of
         None \<Rightarrow> []
       | Some error \<Rightarrow> [ConsoleError (''Error opening '' @ itemPath @ '':'') error]))
     @ openItems launch items"

text \<open>
  \<^verbatim>\<open>Command\<close> of \<^verbatim>\<open>unnamed/part_000\<close>, from the list \<open>items\<close> that
  \<^verbatim>\<open>getSelectedFinderItems\<close> returned.
\<close>

definition Command :: "Launcher \<Rightarrow> string list \<Rightarrow> effect list" where
  "Command launch items =
     (if length items = 0
      then [ShowToast Failure ''No items selected'' ''Please select a file or folder in Finder'']
      else
        (let itemType =
               (if length items = 1
                then (if endsWith (items ! 0) ''/'' then ''folder'' else ''file'')
                else ''items'')
         in openItems launch items @
            [ShowToast Success
               (''Opened '' @ String_nat (length items) @ '' '' @ itemType @ '' in Cursor'')
               (if length items = 1 then items ! 0
                else String_nat (length items) @ '' items opened'')]))"

text \<open>What the user is shown: the toasts among the effects.\<close>

fun toasts :: "effect list \<Rightarrow> effect list" where
  "toasts [] = []"
| "toasts (ShowToast style title message # es) = ShowToast style title message # toasts es"
| "toasts (e # es) = toasts es"

text \<open>The commands run through \<^verbatim>\<open>execAsync\<close>, and the writes requested from
  \<^verbatim>\<open>LocalStorage\<close>, among the effects.\<close>

fun launched :: "effect list \<Rightarrow> string list" where
  "launched [] = []"
| "launched (Exec command # es) = command # launched es"
| "launched (e # es) = launched es"

fun writes :: "effect list \<Rightarrow> (string \<times> string) list" where
  "writes [] = []"
| "writes (SetItem key v # es) = (key, v) # writes es"
| "writes (e # es) = writes es"

text \<open>The targets handed to \<^verbatim>\<open>open\<close>, and the errors written to the console, among
  the effects.\<close>

fun attempted :: "effect list \<Rightarrow> string list" where
  "attempted [] = []"
| "attempted (OpenWith target application # es) = target # attempted es"
| "attempted (e # es) = attempted es"




section \<open>Sample inputs\<close>

text \<open>Concrete folders, file systems and launchers, on which the properties below are run.\<close>

definition sampleFS :: FileSystem where
  "sampleFS p =
     (if p = ''/tmp/A''
        then Listing [Dirent ''x'' Directory, Dirent ''y'' Directory, Dirent ''z.txt'' RegularFile]
      else if p = ''/tmp/A/x''
        then Listing [Dirent ''README.md'' RegularFile, Dirent ''old.code-workspace'' Directory]
      else if p = ''/tmp/A/y''
        then Listing [Dirent ''a.code-workspace'' RegularFile, Dirent ''b.code-workspace'' RegularFile]
      else if p = ''/tmp/A/proj''
        then Listing [Dirent ''src'' Directory, Dirent ''proj.code-workspace'' RegularFile]
      else if p = ''/tmp/A/z.txt'' then Unlistable ''ENOTDIR: not a directory''
      else Missing)"

text \<open>
  A home directory \<^verbatim>\<open>/Users/me\<close> whose \<^verbatim>\<open>Work/projects\<close> holds one project
  directory, named \<^verbatim>\<open>x$Y\<close>, with one source file in it.
\<close>

definition projectsFS :: FileSystem where
  "projectsFS p =
     (if p = ''/Users/me/Work/projects'' then Listing [Dirent ''x$Y'' Directory]
      else if p = ''/Users/me/Work/projects/x$Y'' then Listing [Dirent ''main.c'' RegularFile]
      else Missing)"

definition launchSucceeds :: Launcher where
  "launchSucceeds target application = None"

definition launchFails :: Launcher where
  "launchFails target application = Some ''Error: Application not found''"


definition shellSucceeds :: Shell where
  "shellSucceeds command = None"

definition shellFails :: Shell where
  "shellFails command = Some ''Error: Command failed''"

definition sampleFolder :: "nat \<Rightarrow> Folder" where
  "sampleFolder n = \<lparr>name = ''p'' @ String_nat n, path = ''/w/p'' @ String_nat n\<rparr>"

text \<open>
  A stand-in for \<^verbatim>\<open>JSON.parse\<close>, to be used on three texts only, on which it agrees
  with \<^verbatim>\<open>JSON.parse\<close>: \<^verbatim>\<open>[null]\<close>, the text that \<^verbatim>\<open>JSON.stringify\<close> gives
  for the list of \<open>sampleFolder 1\<close>, and \<^verbatim>\<open>{oops\<close>, which is not JSON.  The
  message of the \<^verbatim>\<open>SyntaxError\<close> depends on the engine; a fixed text stands for it.
\<close>

definition sampleParse :: JSONParse where
  "sampleParse text =
     (if text = ''[null]'' then Inr (JArray [JNull])
      else if text = JSON_stringify [sampleFolder 1] then Inr (foldersValue [sampleFolder 1])
      else Inl ''Unexpected token'')"

section \<open>Projections of effect lists\<close>

lemma launched_append: "launched (es @ fs) = launched es @ launched fs"
  by (induction es rule: launched.induct) simp_all

lemma writes_append: "writes (es @ fs) = writes es @ writes fs"
  by (induction es rule: writes.induct) simp_all

lemma toasts_append: "toasts (es @ fs) = toasts es @ toasts fs"
  by (induction es rule: toasts.induct) simp_all



section \<open>Properties of the recent-folders store\<close>

lemma recent_add_docs:
  "recentFolders (fst (addRecentFolder_docs f s)) =
     take 10 (f # filter (\<lambda>g. path g \<noteq> path f) (recentFolders s))"
  by (simp add: addRecentFolder_docs_def MAX_RECENT_FOLDERS_docs_def Let_def)

lemma addRecentFolder_variants: "addRecentFolder_work f s = addRecentFolder_docs f s"
  by (simp add: addRecentFolder_work_def addRecentFolder_docs_def
      MAX_RECENT_FOLDERS_work_def MAX_RECENT_FOLDERS_docs_def
      RECENT_FOLDERS_KEY_work_def RECENT_FOLDERS_KEY_docs_def)

lemma addRecentFolders_variants: "addRecentFolders_work fs s = addRecentFolders_docs fs s"
  by (induction fs arbitrary: s) (simp_all add: addRecentFolder_variants)

lemma fst_adds_Cons:
  "fst (addRecentFolders_docs (f # fs) s) =
     fst (addRecentFolders_docs fs (fst (addRecentFolder_docs f s)))"
  by (simp add: split_beta)

lemma fst_adds_append:
  "fst (addRecentFolders_docs (fs @ gs) s) =
     fst (addRecentFolders_docs gs (fst (addRecentFolders_docs fs s)))"
  by (induction fs arbitrary: s) (simp_all add: split_beta)

lemma fst_adds_snoc:
  "fst (addRecentFolders_docs (fs @ [f]) s) =
     fst (addRecentFolder_docs f (fst (addRecentFolders_docs fs s)))"
  by (simp add: fst_adds_append split_beta)

lemma take_cons_take: "0 < n \<Longrightarrow> take n (x # take n xs) = take n (x # xs)"
  by (cases n) simp_all

lemma filter_other_paths:
  "path f \<notin> path ` set xs \<Longrightarrow> filter (\<lambda>g. path g \<noteq> path f) xs = xs"
  by (induction xs) auto

lemma recent_after_distinct_adds:
  "distinct (map path fs) \<Longrightarrow>
   recentFolders (fst (addRecentFolders_docs fs initialStore)) = take 10 (rev fs)"
proof (induction fs rule: rev_induct)
  case Nil
  show ?case by (simp add: initialStore_def)
next
  case (snoc f fs)
  from snoc.prems have d: "distinct (map path fs)" and new: "path f \<notin> path ` set fs"
    by auto
  have "path f \<notin> path ` set (take 10 (rev fs))"
    using new by (auto dest: in_set_takeD)
  then have keep: "filter (\<lambda>g. path g \<noteq> path f) (take 10 (rev fs)) = take 10 (rev fs)"
    by (rule filter_other_paths)
  show ?case
    by (simp only: fst_adds_snoc recent_add_docs snoc.IH [OF d] keep)
       (simp add: take_cons_take)
qed

lemma recent_add_head:
  "\<exists>rest. recentFolders (fst (addRecentFolder_docs f s)) = f # rest \<and> path f \<notin> path ` set rest"
  by (auto simp: recent_add_docs take_Cons' dest: in_set_takeD)

lemma recent_add_distinct:
  "distinct (map path (recentFolders s)) \<Longrightarrow>
   distinct (map path (recentFolders (fst (addRecentFolder_docs f s))))"
proof -
  assume d: "distinct (map path (recentFolders s))"
  have "distinct (map path (f # filter (\<lambda>g. path g \<noteq> path f) (recentFolders s)))"
    using d by (auto simp: distinct_map_filter)
  then have "distinct (take 10 (map path (f # filter (\<lambda>g. path g \<noteq> path f) (recentFolders s))))"
    by (rule distinct_take)
  then show ?thesis
    by (simp only: recent_add_docs take_map)
qed

text \<open>
  \<^bold>\<open>C1.\<close>  For folders \<open>f1\<close> and \<open>f2\<close> with distinct paths, adding \<open>f1\<close>, then
  \<open>f2\<close>, then \<open>f1\<close> again to the empty list gives exactly \<open>[f1, f2]\<close>, in either list
  command: \<open>f1\<close> is at position 0, the length is 2 and no path occurs twice.  In general
  the list after \<^verbatim>\<open>addRecentFolder\<close> starts with the new folder, and no later entry
  has its path.
\<close>

theorem promote_f1_f2_f1:
  assumes "path f1 \<noteq> path f2"
  shows "recentFolders (fst (addRecentFolders_docs [f1, f2, f1] initialStore)) = [f1, f2]
       \<and> recentFolders (fst (addRecentFolders_work [f1, f2, f1] initialStore)) = [f1, f2]
       \<and> recentFolders (fst (addRecentFolders_docs [f1, f2, f1] initialStore)) ! 0 = f1
       \<and> length (recentFolders (fst (addRecentFolders_docs [f1, f2, f1] initialStore))) = 2
       \<and> distinct (map path (recentFolders (fst (addRecentFolders_docs [f1, f2, f1] initialStore))))
       \<and> (\<exists>rest. recentFolders (fst (addRecentFolder_docs f s)) = f # rest
                  \<and> path f \<notin> path ` set rest)
       \<and> (distinct (map path (recentFolders s)) \<longrightarrow>
            distinct (map path (recentFolders (fst (addRecentFolder_docs f s)))))"
proof -
  have docs: "recentFolders (fst (addRecentFolders_docs [f1, f2, f1] initialStore)) = [f1, f2]"
    using assms by (simp add: split_beta recent_add_docs initialStore_def)
  have work: "recentFolders (fst (addRecentFolders_work [f1, f2, f1] initialStore)) = [f1, f2]"
    by (simp only: addRecentFolders_variants docs)
  show ?thesis
    unfolding docs work
    using assms recent_add_head [of f s] recent_add_distinct [of s f] by simp
qed

theorem promote_f1_f2_f1_witness:
  "recentFolders (fst (addRecentFolders_docs [sampleFolder 1, sampleFolder 2, sampleFolder 1]
      initialStore)) = [sampleFolder 1, sampleFolder 2]
   \<and> recentFolders (fst (addRecentFolders_work [sampleFolder 1, sampleFolder 2, sampleFolder 1]
      initialStore)) = [sampleFolder 1, sampleFolder 2]
   \<and> distinct (map path (recentFolders (fst (addRecentFolder_docs (sampleFolder 3)
      (initialStore\<lparr>recentFolders := [sampleFolder 1, sampleFolder 3]\<rparr>)))))"
proof -
  have h: "path (sampleFolder 1) \<noteq> path (sampleFolder 2)"
    by code_simp
  have d: "distinct (map path (recentFolders
      (initialStore\<lparr>recentFolders := [sampleFolder 1, sampleFolder 3]\<rparr>)))"
    by code_simp
  show ?thesis
    using promote_f1_f2_f1 [OF h, of "sampleFolder 3"
        "initialStore\<lparr>recentFolders := [sampleFolder 1, sampleFolder 3]\<rparr>"] d
    by simp
qed

text \<open>
  \<^bold>\<open>C2.\<close>  After more than ten calls of \<^verbatim>\<open>addRecentFolder\<close> with pairwise distinct
  paths, starting from the empty list, the list holds exactly ten entries: the ten folders
  added last, the most recent first.  After any call on any store the list has at most
  ten entries, and it is a prefix of the new folder followed by the old entries with
  another path, so what is dropped is dropped from the tail.
\<close>

theorem capacity_ten:
  assumes "distinct (map path fs)" and "10 < length fs"
  shows "recentFolders (fst (addRecentFolders_docs fs initialStore)) = take 10 (rev fs)
       \<and> recentFolders (fst (addRecentFolders_work fs initialStore)) = take 10 (rev fs)
       \<and> length (recentFolders (fst (addRecentFolders_docs fs initialStore))) = 10
       \<and> length (recentFolders (fst (addRecentFolder_docs f s))) \<le> 10
       \<and> length (recentFolders (fst (addRecentFolder_work f s))) \<le> 10
       \<and> prefix (recentFolders (fst (addRecentFolder_docs f s)))
            (f # filter (\<lambda>g. path g \<noteq> path f) (recentFolders s))"
proof -
  have docs: "recentFolders (fst (addRecentFolders_docs fs initialStore)) = take 10 (rev fs)"
    using assms(1) by (rule recent_after_distinct_adds)
  have len: "length (take 10 (rev fs)) = 10"
    using assms(2) by simp
  have pre: "prefix (recentFolders (fst (addRecentFolder_docs f s)))
            (f # filter (\<lambda>g. path g \<noteq> path f) (recentFolders s))"
    by (simp only: recent_add_docs take_is_prefix)
  have cap: "length (recentFolders (fst (addRecentFolder_docs f s))) \<le> 10"
    by (simp only: recent_add_docs length_take min.cobounded2)
  show ?thesis
    unfolding addRecentFolders_variants addRecentFolder_variants docs
    using len cap pre by simp
qed

theorem capacity_ten_witness:
  "recentFolders (fst (addRecentFolders_docs (map sampleFolder [1, 2, 3, 4, 5, 6, 7, 8, 9, 10, 11, 12]) initialStore)) =
     map sampleFolder [12, 11, 10, 9, 8, 7, 6, 5, 4, 3]
   \<and> length (recentFolders (fst (addRecentFolders_docs (map sampleFolder [1, 2, 3, 4, 5, 6, 7, 8, 9, 10, 11, 12]) initialStore))) = 10"
proof -
  have d: "distinct (map path (map sampleFolder [1, 2, 3, 4, 5, 6, 7, 8, 9, 10, 11, 12]))"
    by code_simp
  have l: "10 < length (map sampleFolder [1, 2, 3, 4, 5, 6, 7, 8, 9, 10, 11, 12])"
    by simp
  have r: "take 10 (rev (map sampleFolder [1, 2, 3, 4, 5, 6, 7, 8, 9, 10, 11, 12])) = map sampleFolder [12, 11, 10, 9, 8, 7, 6, 5, 4, 3]"
    by simp
  show ?thesis
    using capacity_ten [OF d l] by (simp only: r) simp
qed

text \<open>
  \<^bold>\<open>C10.\<close>  \<^verbatim>\<open>addRecentFolder\<close> of \<^verbatim>\<open>src/open-in-cursor.tsx\<close> and
  \<^verbatim>\<open>addRecentFolder\<close> of \<^verbatim>\<open>unnamed/part_001\<close> are the same function: for every
  folder and store they give the same store (same removal by path, same prepending, same
  cut to ten) and request the same write, the JSON text of the new list under the key
  \<^verbatim>\<open>recentFolders\<close>.
\<close>

theorem variants_agree:
  "addRecentFolder_docs = addRecentFolder_work
   \<and> RECENT_FOLDERS_KEY_docs = RECENT_FOLDERS_KEY_work
   \<and> MAX_RECENT_FOLDERS_docs = MAX_RECENT_FOLDERS_work
   \<and> snd (addRecentFolder_docs f s) =
       [SetItem ''recentFolders'' (JSON_stringify (recentFolders (fst (addRecentFolder_docs f s))))]
   \<and> snd (addRecentFolder_work f s) =
       [SetItem ''recentFolders'' (JSON_stringify (recentFolders (fst (addRecentFolder_docs f s))))]"
proof -
  have "addRecentFolder_docs = addRecentFolder_work"
    by (intro ext) (simp only: addRecentFolder_variants)
  moreover have "snd (addRecentFolder_docs f s) =
       [SetItem ''recentFolders'' (JSON_stringify (recentFolders (fst (addRecentFolder_docs f s))))]"
    by (simp add: addRecentFolder_docs_def RECENT_FOLDERS_KEY_docs_def Let_def)
  ultimately show ?thesis
    by (simp add: RECENT_FOLDERS_KEY_docs_def RECENT_FOLDERS_KEY_work_def
        MAX_RECENT_FOLDERS_docs_def MAX_RECENT_FOLDERS_work_def)
qed

section \<open>Properties of loading\<close>

lemma toasts_getFolders: "toasts (snd (getFoldersFromPath fs root)) = []"
  by (simp add: getFoldersFromPath_def split: sum.splits)

lemma toasts_concat: "(\<And>es. es \<in> set ess \<Longrightarrow> toasts es = []) \<Longrightarrow> toasts (concat ess) = []"
  by (induction ess) (simp_all add: toasts_append)

lemma toasts_scanAll: "toasts (snd (scanAll fs roots)) = []"
  by (auto simp: scanAll_def Let_def toasts_getFolders intro!: toasts_concat)

lemma loadFolders_result:
  "loadFolders parse fs roots key storage state =
     (case storage key of
        None \<Rightarrow>
          (state\<lparr>folders := fst (scanAll fs roots), isLoading := False\<rparr>, snd (scanAll fs roots))
      | Some text \<Rightarrow>
          if text = []
          then (state\<lparr>folders := fst (scanAll fs roots), isLoading := False\<rparr>,
                snd (scanAll fs roots))
          else
            (case parse text of
               Inl msg \<Rightarrow>
                 (state\<lparr>folders := fst (scanAll fs roots), isLoading := False\<rparr>,
                  snd (scanAll fs roots) @ [ShowToast Failure ''Error reading folders'' msg])
             | Inr v \<Rightarrow>
                 (state\<lparr>folders := fst (scanAll fs roots), recentFolders := v,
                    isLoading := False\<rparr>,
                  snd (scanAll fs roots))))"
  by (simp add: loadFolders_def loadFolders_try_def Let_def split_beta
      split: option.splits sum.splits)

text \<open>
  \<^bold>\<open>C4\<close>, as the code has it.  \<^verbatim>\<open>loadFolders\<close>, run on the initial store, leaves
  the in-memory list of recent folders empty when no value is stored under the key, when
  the stored value is the empty string, and when \<^verbatim>\<open>JSON.parse\<close> throws on it; in the
  last case the \<^verbatim>\<open>try\<close> block throws, the error is caught and shown as a failure
  toast, and the call ends normally.  A stored value that \<^verbatim>\<open>JSON.parse\<close> accepts
  becomes the in-memory list as it is.  In every case \<^verbatim>\<open>isLoading\<close> ends false.
\<close>

theorem load_missing_or_unparsable:
  "(storage key = None \<or> storage key = Some [] \<longrightarrow>
      recentFolders (fst (loadFolders parse fs roots key storage (rawStore initialStore))) =
        foldersValue []
      \<and> toasts (snd (loadFolders parse fs roots key storage (rawStore initialStore))) = [])
   \<and> (storage key = Some text \<longrightarrow> text \<noteq> [] \<longrightarrow> parse text = Inl msg \<longrightarrow>
      snd (snd (loadFolders_try parse fs roots key storage (rawStore initialStore))) = Some msg
      \<and> recentFolders (fst (loadFolders parse fs roots key storage (rawStore initialStore))) =
        foldersValue []
      \<and> toasts (snd (loadFolders parse fs roots key storage (rawStore initialStore))) =
        [ShowToast Failure ''Error reading folders'' msg])
   \<and> (storage key = Some text \<longrightarrow> text \<noteq> [] \<longrightarrow> parse text = Inr v \<longrightarrow>
      recentFolders (fst (loadFolders parse fs roots key storage (rawStore initialStore))) = v
      \<and> toasts (snd (loadFolders parse fs roots key storage (rawStore initialStore))) = [])
   \<and> isLoading (fst (loadFolders parse fs roots key storage (rawStore initialStore))) = False"
  by (auto simp: loadFolders_result loadFolders_try_def split_beta Let_def toasts_append
      toasts_scanAll rawStore_def initialStore_def split: option.splits sum.splits)

theorem load_missing_or_unparsable_witness:
  "recentFolders (fst (loadFolders_docs sampleParse sampleFS (Some ''/Users/me'')
      Map.empty (rawStore initialStore))) = JArray []
   \<and> toasts (snd (loadFolders_docs sampleParse sampleFS (Some ''/Users/me'')
      Map.empty (rawStore initialStore))) = []
   \<and> recentFolders (fst (loadFolders_docs sampleParse sampleFS (Some ''/Users/me'')
      [RECENT_FOLDERS_KEY_docs \<mapsto> ''{oops''] (rawStore initialStore))) = JArray []
   \<and> toasts (snd (loadFolders_docs sampleParse sampleFS (Some ''/Users/me'')
      [RECENT_FOLDERS_KEY_docs \<mapsto> ''{oops''] (rawStore initialStore))) =
      [ShowToast Failure ''Error reading folders'' ''Unexpected token'']
   \<and> recentFolders (fst (loadFolders_work sampleParse sampleFS (Some ''/Users/me'')
      [RECENT_FOLDERS_KEY_work \<mapsto> JSON_stringify [sampleFolder 1]] (rawStore initialStore))) =
      foldersValue [sampleFolder 1]"
proof -
  have none: "Map.empty RECENT_FOLDERS_KEY_docs = None
      \<or> Map.empty RECENT_FOLDERS_KEY_docs = Some ([] :: string)"
    by simp
  have bad: "[RECENT_FOLDERS_KEY_docs \<mapsto> ''{oops''] RECENT_FOLDERS_KEY_docs = Some ''{oops''"
    by simp
  have bad_text: "''{oops'' \<noteq> []"
    by simp
  have bad_parse: "sampleParse ''{oops'' = Inl ''Unexpected token''"
    by code_simp
  have good: "[RECENT_FOLDERS_KEY_work \<mapsto> JSON_stringify [sampleFolder 1]] RECENT_FOLDERS_KEY_work =
      Some (JSON_stringify [sampleFolder 1])"
    by simp
  have good_text: "JSON_stringify [sampleFolder 1] \<noteq> []"
    by (simp add: JSON_stringify_def)
  have good_parse: "sampleParse (JSON_stringify [sampleFolder 1]) = Inr (foldersValue [sampleFolder 1])"
    by (simp add: sampleParse_def JSON_stringify_def json_folder_def)
  have empty: "foldersValue [] = JArray []"
    by (simp add: foldersValue_def)
  note missing = load_missing_or_unparsable [where parse = sampleParse and fs = sampleFS
      and roots = "SEARCH_PATHS_docs (Some ''/Users/me'')" and key = RECENT_FOLDERS_KEY_docs
      and storage = Map.empty, THEN conjunct1, rule_format, OF none]
  note unparsable = load_missing_or_unparsable [where parse = sampleParse and fs = sampleFS
      and roots = "SEARCH_PATHS_docs (Some ''/Users/me'')" and key = RECENT_FOLDERS_KEY_docs
      and storage = "[RECENT_FOLDERS_KEY_docs \<mapsto> ''{oops'']",
      THEN conjunct2, THEN conjunct1, rule_format, OF bad bad_text bad_parse]
  note parsed = load_missing_or_unparsable [where parse = sampleParse and fs = sampleFS
      and roots = "SEARCH_PATHS_work (Some ''/Users/me'')" and key = RECENT_FOLDERS_KEY_work
      and storage = "[RECENT_FOLDERS_KEY_work \<mapsto> JSON_stringify [sampleFolder 1]]",
      THEN conjunct2, THEN conjunct2, THEN conjunct1, rule_format, OF good good_text good_parse]
  show ?thesis
    unfolding loadFolders_docs_def loadFolders_work_def
    using missing unparsable parsed by (simp only: empty)
qed

text \<open>
  \<^bold>\<open>C4\<close>, as stated, asks for an empty list after loading any stored value that is not
  the serialisation of a list of folders.  The stored text \<^verbatim>\<open>[null]\<close> is JSON but no
  list of folders, and after loading it the in-memory list is the one-element array
  holding \<^verbatim>\<open>null\<close>; no toast is shown.
\<close>

theorem load_keeps_malformed_list:
  "recentFolders (fst (loadFolders_docs sampleParse sampleFS (Some ''/Users/me'')
      [RECENT_FOLDERS_KEY_docs \<mapsto> ''[null]''] (rawStore initialStore))) = JArray [JNull]
   \<and> JArray [JNull] \<noteq> foldersValue []
   \<and> JArray [JNull] \<notin> range foldersValue
   \<and> toasts (snd (loadFolders_docs sampleParse sampleFS (Some ''/Users/me'')
      [RECENT_FOLDERS_KEY_docs \<mapsto> ''[null]''] (rawStore initialStore))) = []"
  by (auto simp: loadFolders_docs_def loadFolders_result sampleParse_def toasts_scanAll
      foldersValue_def folderValue_def)

section \<open>Properties of scanning and opening\<close>

lemma path_join_nonempty: "path_join a b \<noteq> []"
  by (simp add: path_join_def path_normalize_def Let_def)

lemma find_filter:
  "find P xs = (case filter P xs of [] \<Rightarrow> None | x # _ \<Rightarrow> Some x)"
  by (induction xs) simp_all





lemma findWorkspace_missing:
  "fs p = Missing \<Longrightarrow> findWorkspaceFileInFolder fs p = (None, [])"
  by (simp add: findWorkspaceFileInFolder_def existsSync_def)

lemma findWorkspace_listing:
  "fs p = Listing entries \<Longrightarrow>
   findWorkspaceFileInFolder fs p =
     (case filter (\<lambda>e. isFile e \<and> endsWith (entry_name e) ''.code-workspace'') entries of
        [] \<Rightarrow> (None, [])
      | w # _ \<Rightarrow> (Some (path_join p (entry_name w)), []))"
  by (simp add: findWorkspaceFileInFolder_def existsSync_def readdirSync_def find_filter
      split: list.splits)

lemma launched_add_work: "launched (snd (addRecentFolder_work f s)) = []"
  by (simp add: addRecentFolder_work_def Let_def)

lemma open_work_no_workspace:
  "findWorkspaceFileInFolder fs (path folder) = (None, []) \<Longrightarrow>
   launched (snd (openInCursor_work exec fs folder s)) = [cursor_command (path folder)]"
  by (simp add: openInCursor_work_def launched_add_work split_beta split: option.splits)

lemma open_work_workspace:
  "findWorkspaceFileInFolder fs (path folder) = (Some w, []) \<Longrightarrow> w \<noteq> [] \<Longrightarrow>
   launched (snd (openInCursor_work exec fs folder s)) = [cursor_command w]"
  by (simp add: openInCursor_work_def launched_add_work split_beta split: option.splits)

text \<open>
  The one command that \<^verbatim>\<open>openInCursor\<close> of \<^verbatim>\<open>unnamed/part_001\<close> runs is the
  text \<^verbatim>\<open>cursor\<close>, a space and the target between two quotation marks, the target
  being copied into the text as it is.  The target is the folder's own path if the folder
  does not exist or has no entry that is a file with a name ending in
  \<^verbatim>\<open>.code-workspace\<close>, and else the full path of the first such file in enumeration
  order.
\<close>

lemma open_command_text:
  "(fs (path folder) = Missing \<longrightarrow>
      launched (snd (openInCursor_work exec fs folder s)) =
        [''cursor '' @ [CHR 0x22] @ path folder @ [CHR 0x22]])
   \<and> (fs (path folder) = Listing entries \<longrightarrow>
      filter (\<lambda>e. isFile e \<and> endsWith (entry_name e) ''.code-workspace'') entries = [] \<longrightarrow>
      launched (snd (openInCursor_work exec fs folder s)) =
        [''cursor '' @ [CHR 0x22] @ path folder @ [CHR 0x22]])
   \<and> (fs (path folder) = Listing entries \<longrightarrow>
      filter (\<lambda>e. isFile e \<and> endsWith (entry_name e) ''.code-workspace'') entries = w # ws \<longrightarrow>
      launched (snd (openInCursor_work exec fs folder s)) =
        [''cursor '' @ [CHR 0x22] @ path_join (path folder) (entry_name w) @ [CHR 0x22]])"
proof (intro conjI impI)
  assume "fs (path folder) = Missing"
  then have "launched (snd (openInCursor_work exec fs folder s)) = [cursor_command (path folder)]"
    by (intro open_work_no_workspace findWorkspace_missing)
  then show "launched (snd (openInCursor_work exec fs folder s)) =
      [''cursor '' @ [CHR 0x22] @ path folder @ [CHR 0x22]]"
    by (simp add: cursor_command_def dquote_def)
next
  assume "fs (path folder) = Listing entries"
    and "filter (\<lambda>e. isFile e \<and> endsWith (entry_name e) ''.code-workspace'') entries = []"
  then have "findWorkspaceFileInFolder fs (path folder) = (None, [])"
    by (simp add: findWorkspace_listing)
  then have "launched (snd (openInCursor_work exec fs folder s)) = [cursor_command (path folder)]"
    by (rule open_work_no_workspace)
  then show "launched (snd (openInCursor_work exec fs folder s)) =
      [''cursor '' @ [CHR 0x22] @ path folder @ [CHR 0x22]]"
    by (simp add: cursor_command_def dquote_def)
next
  assume "fs (path folder) = Listing entries"
    and "filter (\<lambda>e. isFile e \<and> endsWith (entry_name e) ''.code-workspace'') entries = w # ws"
  then have "findWorkspaceFileInFolder fs (path folder) =
      (Some (path_join (path folder) (entry_name w)), [])"
    by (simp add: findWorkspace_listing)
  then have "launched (snd (openInCursor_work exec fs folder s)) =
      [cursor_command (path_join (path folder) (entry_name w))]"
    using path_join_nonempty by (rule open_work_workspace)
  then show "launched (snd (openInCursor_work exec fs folder s)) =
      [''cursor '' @ [CHR 0x22] @ path_join (path folder) (entry_name w) @ [CHR 0x22]]"
    by (simp add: cursor_command_def dquote_def)
qed

text \<open>
  \<^bold>\<open>C7.\<close>  The claim has the resolved target opened for every folder: the folder's own
  path, unchanged, when the folder holds no workspace file.  \<^verbatim>\<open>openInCursor\<close> of
  \<^verbatim>\<open>unnamed/part_001\<close> resolves this target, but it hands it to \<^verbatim>\<open>execAsync\<close>, and
  so to the shell, inside a command text, between quotation marks and with none of its
  characters escaped.  The project directory \<^verbatim>\<open>x$Y\<close> is found by the scan of the
  search paths; opening it runs the text \<^verbatim>\<open>cursor "/Users/me/Work/projects/x$Y"\<close>, in
  which the shell reads \<^verbatim>\<open>$Y\<close> as a parameter, and the toast names the folder's path
  as opened.  \<^verbatim>\<open>openInCursor\<close> of \<^verbatim>\<open>src/open-in-cursor.tsx\<close> passes the path to
  \<^verbatim>\<open>open\<close> as an argument instead.
\<close>

theorem open_unescaped_path:
  "fst (scanAll projectsFS (SEARCH_PATHS_work (Some ''/Users/me''))) =
     [\<lparr>name = ''x$Y'', path = ''/Users/me/Work/projects/x$Y''\<rparr>]
   \<and> launched (snd (openInCursor_work shellSucceeds projectsFS
        \<lparr>name = ''x$Y'', path = ''/Users/me/Work/projects/x$Y''\<rparr> initialStore)) =
     [''cursor '' @ [CHR 0x22] @ ''/Users/me/Work/projects/x$Y'' @ [CHR 0x22]]
   \<and> toasts (snd (openInCursor_work shellSucceeds projectsFS
        \<lparr>name = ''x$Y'', path = ''/Users/me/Work/projects/x$Y''\<rparr> initialStore)) =
     [ShowToast Success ''Opened in Cursor'' ''/Users/me/Work/projects/x$Y'']
   \<and> attempted (snd (openInCursor_docs launchSucceeds
        \<lparr>name = ''x$Y'', path = ''/Users/me/Work/projects/x$Y''\<rparr> initialStore)) =
     [''/Users/me/Work/projects/x$Y'']"
proof -
  have scanned: "fst (scanAll projectsFS (SEARCH_PATHS_work (Some ''/Users/me''))) =
     [\<lparr>name = ''x$Y'', path = ''/Users/me/Work/projects/x$Y''\<rparr>]"
    by code_simp
  have ran: "launched (snd (openInCursor_work shellSucceeds projectsFS
        \<lparr>name = ''x$Y'', path = ''/Users/me/Work/projects/x$Y''\<rparr> initialStore)) =
     [''cursor '' @ [CHR 0x22] @ ''/Users/me/Work/projects/x$Y'' @ [CHR 0x22]]"
    by code_simp
  have shown: "toasts (snd (openInCursor_work shellSucceeds projectsFS
        \<lparr>name = ''x$Y'', path = ''/Users/me/Work/projects/x$Y''\<rparr> initialStore)) =
     [ShowToast Success ''Opened in Cursor'' ''/Users/me/Work/projects/x$Y'']"
    by code_simp
  have sibling: "attempted (snd (openInCursor_docs launchSucceeds
        \<lparr>name = ''x$Y'', path = ''/Users/me/Work/projects/x$Y''\<rparr> initialStore)) =
     [''/Users/me/Work/projects/x$Y'']"
    by code_simp
  from scanned ran shown sibling show ?thesis
    by (intro conjI)
qed

lemma add_work_effects:
  "snd (addRecentFolder_work f s) =
     [SetItem RECENT_FOLDERS_KEY_work (JSON_stringify (recentFolders (fst (addRecentFolder_work f s))))]"
  by (simp add: addRecentFolder_work_def Let_def)

lemma findWorkspace_logs:
  "launched (snd (findWorkspaceFileInFolder fs p)) = []
   \<and> toasts (snd (findWorkspaceFileInFolder fs p)) = []
   \<and> writes (snd (findWorkspaceFileInFolder fs p)) = []"
  by (simp add: findWorkspaceFileInFolder_def split: sum.splits option.splits)

lemma open_work_shape:
  "\<exists>target title.
     openInCursor_work exec fs folder s =
       (case exec (cursor_command target) of
          None \<Rightarrow>
            (fst (addRecentFolder_work folder s),
             snd (findWorkspaceFileInFolder fs (path folder)) @
             [Exec (cursor_command target), ShowToast Success title target] @
             snd (addRecentFolder_work folder s))
        | Some err \<Rightarrow>
            (s, snd (findWorkspaceFileInFolder fs (path folder)) @
                [Exec (cursor_command target),
                 ShowToast Failure ''Failed to open in Cursor'' err]))"
proof (cases "findWorkspaceFileInFolder fs (path folder)")
  case (Pair found logs)
  show ?thesis
  proof (cases found)
    case None
    with Pair have "openInCursor_work exec fs folder s =
       (case exec (cursor_command (path folder)) of
          None \<Rightarrow>
            (fst (addRecentFolder_work folder s),
             snd (findWorkspaceFileInFolder fs (path folder)) @
             [Exec (cursor_command (path folder)), ShowToast Success ''Opened in Cursor'' (path folder)] @
             snd (addRecentFolder_work folder s))
        | Some err \<Rightarrow>
            (s, snd (findWorkspaceFileInFolder fs (path folder)) @
                [Exec (cursor_command (path folder)),
                 ShowToast Failure ''Failed to open in Cursor'' err]))"
      by (simp add: openInCursor_work_def split_beta split: option.splits)
    then show ?thesis
      by blast
  next
    case (Some w)
    show ?thesis
    proof (cases "w = []")
      case True
      with Pair Some have "openInCursor_work exec fs folder s =
       (case exec (cursor_command (path folder)) of
          None \<Rightarrow>
            (fst (addRecentFolder_work folder s),
             snd (findWorkspaceFileInFolder fs (path folder)) @
             [Exec (cursor_command (path folder)), ShowToast Success ''Opened in Cursor'' (path folder)] @
             snd (addRecentFolder_work folder s))
        | Some err \<Rightarrow>
            (s, snd (findWorkspaceFileInFolder fs (path folder)) @
                [Exec (cursor_command (path folder)),
                 ShowToast Failure ''Failed to open in Cursor'' err]))"
        by (simp add: openInCursor_work_def split_beta split: option.splits)
      then show ?thesis
        by blast
    next
      case False
      with Pair Some have "openInCursor_work exec fs folder s =
       (case exec (cursor_command w) of
          None \<Rightarrow>
            (fst (addRecentFolder_work folder s),
             snd (findWorkspaceFileInFolder fs (path folder)) @
             [Exec (cursor_command w), ShowToast Success ''Opened workspace in Cursor'' w] @
             snd (addRecentFolder_work folder s))
        | Some err \<Rightarrow>
            (s, snd (findWorkspaceFileInFolder fs (path folder)) @
                [Exec (cursor_command w),
                 ShowToast Failure ''Failed to open in Cursor'' err]))"
        by (simp add: openInCursor_work_def split_beta split: option.splits)
      then show ?thesis
        by blast
    qed
  qed
qed

text \<open>
  \<^bold>\<open>C6.\<close>  When the launch fails in \<^verbatim>\<open>openInCursor\<close>, the store is returned as it
  was, no write to \<^verbatim>\<open>LocalStorage\<close> is requested, so \<^verbatim>\<open>addRecentFolder\<close> has not
  run, and the one toast shown is the failure toast carrying the error.  In
  \<^verbatim>\<open>src/open-in-cursor.tsx\<close> the launch is \<^verbatim>\<open>open(folder.path, "Cursor")\<close>; in
  \<^verbatim>\<open>unnamed/part_001\<close> it is the command that the call ran.
\<close>

theorem failed_launch_keeps_recent:
  "(launch (path folder) ''Cursor'' = Some err \<longrightarrow>
      openInCursor_docs launch folder s =
        (s, [OpenWith (path folder) ''Cursor'',
             ShowToast Failure ''Failed to open in Cursor'' err]))
   \<and> (c \<in> set (launched (snd (openInCursor_work exec fs folder s))) \<longrightarrow> exec c = Some err \<longrightarrow>
      fst (openInCursor_work exec fs folder s) = s
      \<and> writes (snd (openInCursor_work exec fs folder s)) = []
      \<and> toasts (snd (openInCursor_work exec fs folder s)) =
          [ShowToast Failure ''Failed to open in Cursor'' err])"
proof (rule conjI; (intro impI)?)
  assume "launch (path folder) ''Cursor'' = Some err"
  then show "openInCursor_docs launch folder s =
        (s, [OpenWith (path folder) ''Cursor'',
             ShowToast Failure ''Failed to open in Cursor'' err])"
    by (simp add: openInCursor_docs_def)
next
  assume ran: "c \<in> set (launched (snd (openInCursor_work exec fs folder s)))"
    and failed: "exec c = Some err"
  obtain target title where shape:
    "openInCursor_work exec fs folder s =
       (case exec (cursor_command target) of
          None \<Rightarrow>
            (fst (addRecentFolder_work folder s),
             snd (findWorkspaceFileInFolder fs (path folder)) @
             [Exec (cursor_command target), ShowToast Success title target] @
             snd (addRecentFolder_work folder s))
        | Some err \<Rightarrow>
            (s, snd (findWorkspaceFileInFolder fs (path folder)) @
                [Exec (cursor_command target),
                 ShowToast Failure ''Failed to open in Cursor'' err]))"
    using open_work_shape by blast
  have "c = cursor_command target"
    using ran unfolding shape
    by (cases "exec (cursor_command target)")
       (simp_all add: launched_append findWorkspace_logs add_work_effects)
  with failed have "exec (cursor_command target) = Some err"
    by simp
  with shape have result: "openInCursor_work exec fs folder s =
      (s, snd (findWorkspaceFileInFolder fs (path folder)) @
          [Exec (cursor_command target), ShowToast Failure ''Failed to open in Cursor'' err])"
    by simp
  show "fst (openInCursor_work exec fs folder s) = s
      \<and> writes (snd (openInCursor_work exec fs folder s)) = []
      \<and> toasts (snd (openInCursor_work exec fs folder s)) =
          [ShowToast Failure ''Failed to open in Cursor'' err]"
    unfolding result by (simp add: writes_append toasts_append findWorkspace_logs)
qed

theorem failed_launch_keeps_recent_witness:
  "openInCursor_docs launchFails (sampleFolder 1) (initialStore\<lparr>recentFolders := [sampleFolder 2]\<rparr>) =
     (initialStore\<lparr>recentFolders := [sampleFolder 2]\<rparr>,
      [OpenWith (path (sampleFolder 1)) ''Cursor'',
       ShowToast Failure ''Failed to open in Cursor'' ''Error: Application not found''])
   \<and> fst (openInCursor_work shellFails sampleFS \<lparr>name = ''proj'', path = ''/tmp/A/proj''\<rparr>
        (initialStore\<lparr>recentFolders := [sampleFolder 2]\<rparr>)) =
      initialStore\<lparr>recentFolders := [sampleFolder 2]\<rparr>
   \<and> writes (snd (openInCursor_work shellFails sampleFS \<lparr>name = ''proj'', path = ''/tmp/A/proj''\<rparr>
        (initialStore\<lparr>recentFolders := [sampleFolder 2]\<rparr>))) = []
   \<and> toasts (snd (openInCursor_work shellFails sampleFS \<lparr>name = ''proj'', path = ''/tmp/A/proj''\<rparr>
        (initialStore\<lparr>recentFolders := [sampleFolder 2]\<rparr>))) =
      [ShowToast Failure ''Failed to open in Cursor'' ''Error: Command failed'']"
proof -
  have docs: "launchFails (path (sampleFolder 1)) ''Cursor'' = Some ''Error: Application not found''"
    by (simp add: launchFails_def)
  have ran: "cursor_command ''/tmp/A/proj/proj.code-workspace'' \<in>
      set (launched (snd (openInCursor_work shellFails sampleFS
        \<lparr>name = ''proj'', path = ''/tmp/A/proj''\<rparr>
        (initialStore\<lparr>recentFolders := [sampleFolder 2]\<rparr>))))"
    by code_simp
  have work: "shellFails (cursor_command ''/tmp/A/proj/proj.code-workspace'') =
      Some ''Error: Command failed''"
    by (simp add: shellFails_def)
  have 1: "openInCursor_docs launchFails (sampleFolder 1)
        (initialStore\<lparr>recentFolders := [sampleFolder 2]\<rparr>) =
     (initialStore\<lparr>recentFolders := [sampleFolder 2]\<rparr>,
      [OpenWith (path (sampleFolder 1)) ''Cursor'',
       ShowToast Failure ''Failed to open in Cursor'' ''Error: Application not found''])"
    using failed_launch_keeps_recent [where launch = launchFails and folder = "sampleFolder 1"
        and err = "''Error: Application not found''"
        and s = "initialStore\<lparr>recentFolders := [sampleFolder 2]\<rparr>", THEN conjunct1]
      docs by (rule mp)
  have 2: "fst (openInCursor_work shellFails sampleFS \<lparr>name = ''proj'', path = ''/tmp/A/proj''\<rparr>
        (initialStore\<lparr>recentFolders := [sampleFolder 2]\<rparr>)) =
      initialStore\<lparr>recentFolders := [sampleFolder 2]\<rparr>
   \<and> writes (snd (openInCursor_work shellFails sampleFS \<lparr>name = ''proj'', path = ''/tmp/A/proj''\<rparr>
        (initialStore\<lparr>recentFolders := [sampleFolder 2]\<rparr>))) = []
   \<and> toasts (snd (openInCursor_work shellFails sampleFS \<lparr>name = ''proj'', path = ''/tmp/A/proj''\<rparr>
        (initialStore\<lparr>recentFolders := [sampleFolder 2]\<rparr>))) =
      [ShowToast Failure ''Failed to open in Cursor'' ''Error: Command failed'']"
    using failed_launch_keeps_recent [where exec = shellFails and fs = sampleFS
        and folder = "\<lparr>name = ''proj'', path = ''/tmp/A/proj''\<rparr>"
        and c = "cursor_command ''/tmp/A/proj/proj.code-workspace''"
        and err = "''Error: Command failed''"
        and s = "initialStore\<lparr>recentFolders := [sampleFolder 2]\<rparr>",
        THEN conjunct2, rule_format, OF ran work] .
  from 1 2 show ?thesis
    by (intro conjI) (elim conjE, assumption)+
qed







section \<open>Properties of the list sections\<close>

text \<open>
  \<^bold>\<open>C9.\<close>  For every list of scanned folders and every list of recent folders, no
  folder of \<^verbatim>\<open>otherFolders\<close> has a path that occurs in the recent list.
\<close>

theorem others_exclude_recent:
  "\<forall>f \<in> set (otherFolders recent all). path f \<notin> path ` set recent"
  by (simp add: otherFolders_def)

theorem others_exclude_recent_witness:
  "otherFolders [sampleFolder 1] [sampleFolder 1, sampleFolder 2] = [sampleFolder 2]
   \<and> path (sampleFolder 2) \<notin> path ` set [sampleFolder 1]"
proof -
  have h: "path (sampleFolder 1) \<noteq> path (sampleFolder 2)"
    by code_simp
  show ?thesis
    using others_exclude_recent [of "[sampleFolder 1]" "[sampleFolder 1, sampleFolder 2]"] h
    by (simp add: otherFolders_def)
qed

end
